theory Spec2Isabelle
  imports Main "HOL-Library.Word"
begin

section \<open>The database facade of the LOOT API (\<^verbatim>\<open>src/api/api_database.cpp\<close>)\<close>

text \<open>
  The development embeds \<^verbatim>\<open>ApiDatabase\<close>, the query surface over the masterlist and the
  userlist. The classes it calls (\<^verbatim>\<open>MetadataList\<close>, \<^verbatim>\<open>Masterlist\<close>, \<^verbatim>\<open>PluginMetadata\<close>,
  \<^verbatim>\<open>ConditionEvaluator\<close>, \<^verbatim>\<open>GameCache\<close>) live in other files of the repository; what the
  specification says about them is modelled below and marked as such, and what it does not
  say (parsing, serialisation, the version-control client, the file system) is taken as a
  parameter, so that every theorem holds for each behaviour of those parts.
\<close>

subsection \<open>Errors\<close>

text \<open>
  The exceptions thrown across the facade. \<^verbatim>\<open>std::invalid_argument\<close> is the error kind the
  specification calls InvalidArgument. Each carries its message.
\<close>

datatype error =
    FileAccessError string
  | InvalidArgument string
  | ConditionSyntaxError string
  | CyclicInteractionError string
  | GitStateError string
  | UndefinedGroup string

fun is_FileAccessError :: "error \<Rightarrow> bool" where
  "is_FileAccessError (FileAccessError _) = True"
| "is_FileAccessError _ = False"

fun is_InvalidArgument :: "error \<Rightarrow> bool" where
  "is_InvalidArgument (InvalidArgument _) = True"
| "is_InvalidArgument _ = False"

subsection \<open>Metadata values\<close>

text \<open>
  The value types of section 3 of the specification; their classes are declared in headers
  that are not among the sources. A condition is an optional string. The fields that
  \<^verbatim>\<open>api_database.cpp\<close> reads through an accessor carry the accessor's name
  (\<^verbatim>\<open>GetCondition\<close>, \<^verbatim>\<open>GetName\<close>, \<^verbatim>\<open>GetTags\<close>, \<^verbatim>\<open>GetDirtyInfo\<close>).
\<close>

text \<open>
  Modelled from the spec: a message has a type (say, warn or error), an ordered list of
  localised contents (language tag and text) and an optional condition string.
\<close>

datatype MessageType = Say | Warn | Error

record MessageContent =
  content_language :: string
  content_text :: string

record Message =
  message_type :: MessageType
  message_content :: "MessageContent list"
  GetCondition :: "string option"

text \<open>
  Modelled from the spec: a file reference is a name with an optional display name and an
  optional condition string.
\<close>

record File =
  file_name :: string
  file_display :: "string option"
  file_condition :: "string option"

text \<open>
  Modelled from the spec: a tag is a name with an add/remove flag and an optional
  condition.
\<close>

record Tag =
  tag_name :: string
  tag_is_addition :: bool
  tag_condition :: "string option"

text \<open>
  Modelled from the spec: cleaning data is the CRC-32 of the dirty plugin, the name of the
  cleaning utility, the counts of ITM, deleted-reference and deleted-navmesh records, and an
  info message.
\<close>

record PluginCleaningData =
  cleaning_crc :: "32 word"
  cleaning_utility :: string
  cleaning_itm :: nat
  cleaning_deleted_references :: nat
  cleaning_deleted_navmeshes :: nat
  cleaning_info :: "MessageContent list"

text \<open>
  Modelled from the spec: a priority is a signed 8-bit value in one of three states,
  unset, default-set or user-set; the unset state carries no value of its own.
\<close>

datatype Priority = Unset | DefaultSet "8 word" | UserSet "8 word"

text \<open>
  Modelled from the spec: plugin metadata is a record keyed by the plugin's file name. The
  group is optional, and so is \<open>enabled\<close>, since the merge speaks of each scalar as set or
  not set; references, tags, cleaning data and locations are sets, the messages an ordered
  list.
\<close>

record PluginMetadata =
  GetName :: string
  group :: "string option"
  enabled :: "bool option"
  priority :: Priority
  global_priority :: Priority
  load_after :: "File set"
  requirements :: "File set"
  incompatibilities :: "File set"
  messages :: "Message list"
  GetTags :: "Tag set"
  GetDirtyInfo :: "PluginCleaningData set"
  locations :: "string set"

text \<open>
  Modelled from the spec: the constructor \<^verbatim>\<open>PluginMetadata(name)\<close>, the empty metadata value
  for a plugin: a name and nothing else (every scalar unset, every collection empty).
\<close>

definition new_PluginMetadata :: "string \<Rightarrow> PluginMetadata" where
  "new_PluginMetadata n =
     \<lparr> GetName = n, group = None, enabled = None, priority = Unset, global_priority = Unset,
       load_after = {}, requirements = {}, incompatibilities = {}, messages = [],
       GetTags = {}, GetDirtyInfo = {}, locations = {} \<rparr>"

subsection \<open>Metadata lists\<close>

text \<open>
  Modelled from the spec: a metadata list is a collection of plugin entries keyed by the
  normalised (case-insensitive) plugin name, a list of global messages and a set of known
  Bash Tag names. The entries are kept in a list so that \<^verbatim>\<open>Plugins()\<close> can be iterated;
  the order carries no meaning. The masterlist of this version keeps no provenance in
  memory (\<^verbatim>\<open>GetInfo\<close> and \<^verbatim>\<open>IsLatest\<close> are static), so it is a metadata list.
\<close>

record MetadataList =
  Plugins :: "PluginMetadata list"
  Messages :: "Message list"
  BashTags :: "string set"

type_synonym Masterlist = MetadataList

definition empty_MetadataList :: MetadataList where
  "empty_MetadataList = \<lparr> Plugins = [], Messages = [], BashTags = {} \<rparr>"

subsection \<open>The database and its collaborators\<close>

text \<open>
  Modelled from the spec: the part of the game cache the facade touches is the condition
  result cache, a map from condition text to the cached result.
\<close>

type_synonym GameCache = "string \<rightharpoonup> bool"

text \<open>
  Modelled from the spec: \<^verbatim>\<open>GameCache::ClearCachedConditions\<close> forgets every cached result.
\<close>

definition ClearCachedConditions :: "GameCache \<Rightarrow> GameCache" where
  "ClearCachedConditions c = Map.empty"

text \<open>
  The members \<^verbatim>\<open>masterlist_\<close>, \<^verbatim>\<open>userlist_\<close> and \<^verbatim>\<open>gameCache_\<close> of \<^verbatim>\<open>ApiDatabase\<close> (as
  \<open>the_masterlist\<close>, \<open>the_userlist\<close> and \<open>the_gameCache\<close>: a name cannot end in an underscore
  here). The game cache is shared with the condition evaluator, which is why a \<^verbatim>\<open>const\<close>
  query can change it. \<^verbatim>\<open>GetMasterlistRevision\<close> and \<^verbatim>\<open>IsLatestMasterlist\<close> only hand their
  arguments to static functions of the masterlist and are left out.
\<close>

record ApiDatabase =
  the_masterlist :: Masterlist
  the_userlist :: MetadataList
  the_gameCache :: GameCache

text \<open>
  What the facade calls and the sources do not hold, over a file system state \<open>'fs\<close>:
  \<^item> \<^verbatim>\<open>boost::filesystem::exists\<close>, \<^verbatim>\<open>is_directory\<close> and \<^verbatim>\<open>path::parent_path\<close>;
  \<^item> \<^verbatim>\<open>Masterlist::Load\<close> and \<^verbatim>\<open>MetadataList::Load\<close> on a fresh list: the parsed list, or
    the exception thrown;
  \<^item> \<^verbatim>\<open>MetadataList::Save\<close>: the file system afterwards, and the exception if one is thrown;
  \<^item> \<^verbatim>\<open>Masterlist::Update\<close> on a fresh masterlist: the file system afterwards and either the
    exception thrown or the returned flag with the masterlist object as the call leaves it;
  \<^item> the evaluation of a condition string against the game's state with no cache involved
    (parse, then evaluate), and \<^verbatim>\<open>ConditionEvaluator::evaluateAll\<close>;
  \<^item> what \<^verbatim>\<open>MetadataList::AddPlugin\<close> does when an entry of that name is already stored
    (given the stored and the new entry: the entry to store, or the exception thrown).
\<close>

record 'fs Collaborators =
  exists :: "'fs \<Rightarrow> string \<Rightarrow> bool"
  is_directory :: "'fs \<Rightarrow> string \<Rightarrow> bool"
  parent_path :: "string \<Rightarrow> string"
  Masterlist_Load :: "'fs \<Rightarrow> string \<Rightarrow> error + Masterlist"
  MetadataList_Load :: "'fs \<Rightarrow> string \<Rightarrow> error + MetadataList"
  Save :: "MetadataList \<Rightarrow> string \<Rightarrow> 'fs \<Rightarrow> (error + unit) \<times> 'fs"
  Update :: "string \<Rightarrow> string \<Rightarrow> string \<Rightarrow> 'fs \<Rightarrow> (error + bool \<times> Masterlist) \<times> 'fs"
  evaluate_uncached :: "'fs \<Rightarrow> string \<Rightarrow> error + bool"
  evaluateAll :: "'fs \<Rightarrow> GameCache \<Rightarrow> PluginMetadata \<Rightarrow> (error + PluginMetadata) \<times> GameCache"
  AddPlugin_existing :: "PluginMetadata \<Rightarrow> PluginMetadata \<Rightarrow> error + PluginMetadata"

subsection \<open>Database loading functions\<close>

text \<open>
  \<^verbatim>\<open>ApiDatabase::LoadLists\<close>. The two lists are built in the locals \<^verbatim>\<open>temp\<close> and
  \<^verbatim>\<open>userTemp\<close>; the members are assigned after the last statement that can throw. The
  result pairs the outcome with the database as the call leaves it.
\<close>

definition LoadLists ::
  "'fs Collaborators \<Rightarrow> 'fs \<Rightarrow> ApiDatabase \<Rightarrow> string \<Rightarrow> string \<Rightarrow> (error + unit) \<times> ApiDatabase" where
  "LoadLists sys fs db masterlistPath userlistPath =
     (case (if masterlistPath \<noteq> [] then
              (if exists sys fs masterlistPath then Masterlist_Load sys fs masterlistPath
               else Inl (FileAccessError
                 (''The given masterlist path does not exist: '' @ masterlistPath)))
            else Inr empty_MetadataList) of
        Inl e \<Rightarrow> (Inl e, db)
      | Inr temp \<Rightarrow>
          (case (if userlistPath \<noteq> [] then
                   (if exists sys fs userlistPath then MetadataList_Load sys fs userlistPath
                    else Inl (FileAccessError
                      (''The given userlist path does not exist: '' @ userlistPath)))
                 else Inr empty_MetadataList) of
             Inl e \<Rightarrow> (Inl e, db)
           | Inr userTemp \<Rightarrow> (Inr (), db\<lparr>the_masterlist := temp, the_userlist := userTemp\<rparr>)))"

subsection \<open>Plugin names\<close>

text \<open>
  Modelled from the spec: plugin names are compared case-insensitively; a capital ASCII
  letter is lowered, any other character is kept.
\<close>

definition to_lower :: "char \<Rightarrow> char" where
  "to_lower c =
     (case map_of (zip ''ABCDEFGHIJKLMNOPQRSTUVWXYZ'' ''abcdefghijklmnopqrstuvwxyz'') c of
        Some l \<Rightarrow> l
      | None \<Rightarrow> c)"

text \<open>Modelled from the spec: the normalised name of a plugin, every letter lowered.\<close>

definition normalise :: "string \<Rightarrow> string" where
  "normalise s = map to_lower s"

subsection \<open>Merging plugin metadata\<close>

text \<open>
  \<^verbatim>\<open>PluginMetadata::MergeMetadata\<close> is not among the sources; section 4.2 of the
  specification describes it. A scalar of
  \<open>other\<close> that is set wins, otherwise the own one is kept; the sets are united by key, an
  element of \<open>other\<close> whose key is already present being skipped; the messages are
  concatenated, the own ones first. File references key on name and display name, both
  case-insensitive; tags on name and the add/remove flag; cleaning data on the CRC;
  locations on the URL. The name is not merged.
\<close>

text \<open>
  Modelled from the spec: set union by key. The elements of the second set whose key the
  first set already has are left out.
\<close>

definition union_by_key :: "('a \<Rightarrow> 'k) \<Rightarrow> 'a set \<Rightarrow> 'a set \<Rightarrow> 'a set" where
  "union_by_key key A B = A \<union> {b \<in> B. key b \<notin> key ` A}"

text \<open>
  Modelled from the spec: the key of a file reference, its name and display name without
  regard to case.
\<close>

definition file_key :: "File \<Rightarrow> string \<times> string option" where
  "file_key f = (normalise (file_name f), map_option normalise (file_display f))"

text \<open>Modelled from the spec: the key of a tag, its name and its add/remove flag.\<close>

definition tag_key :: "Tag \<Rightarrow> string \<times> bool" where
  "tag_key t = (tag_name t, tag_is_addition t)"

text \<open>
  Modelled from the spec: the merge itself, field by field.
\<close>

definition MergeMetadata :: "PluginMetadata \<Rightarrow> PluginMetadata \<Rightarrow> PluginMetadata" where
  "MergeMetadata self other =
     self
       \<lparr> group := (case group other of Some g \<Rightarrow> Some g | None \<Rightarrow> group self),
         enabled := (case enabled other of Some b \<Rightarrow> Some b | None \<Rightarrow> enabled self),
         priority := (if priority other \<noteq> Unset then priority other else priority self),
         global_priority :=
           (if global_priority other \<noteq> Unset then global_priority other
            else global_priority self),
         load_after := union_by_key file_key (load_after self) (load_after other),
         requirements := union_by_key file_key (requirements self) (requirements other),
         incompatibilities :=
           union_by_key file_key (incompatibilities self) (incompatibilities other),
         messages := messages self @ messages other,
         GetTags := union_by_key tag_key (GetTags self) (GetTags other),
         GetDirtyInfo := union_by_key cleaning_crc (GetDirtyInfo self) (GetDirtyInfo other),
         locations := union_by_key id (locations self) (locations other) \<rparr>"

subsection \<open>Finding, erasing and adding entries\<close>

text \<open>
  Modelled from the spec: two entries are entries of the same plugin when their normalised
  names are equal.
\<close>

definition same_plugin :: "PluginMetadata \<Rightarrow> PluginMetadata \<Rightarrow> bool" where
  "same_plugin p q = (normalise (GetName p) = normalise (GetName q))"

text \<open>
  Modelled from the spec: \<^verbatim>\<open>MetadataList::FindPlugin\<close> on the mapping from normalised name
  to entry: the stored entry, or the empty value of the name asked for when none is stored.
\<close>

definition FindPlugin :: "MetadataList \<Rightarrow> string \<Rightarrow> PluginMetadata" where
  "FindPlugin l n =
     (case find (same_plugin (new_PluginMetadata n)) (Plugins l) of
        Some p \<Rightarrow> p
      | None \<Rightarrow> new_PluginMetadata n)"

text \<open>
  Modelled from the spec: \<^verbatim>\<open>MetadataList::ErasePlugin\<close> removes the entry of the plugin's
  name.
\<close>

definition ErasePlugin :: "MetadataList \<Rightarrow> PluginMetadata \<Rightarrow> MetadataList" where
  "ErasePlugin l p = l\<lparr>Plugins := filter (\<lambda>q. \<not> same_plugin p q) (Plugins l)\<rparr>"

text \<open>
  Modelled from the spec: \<^verbatim>\<open>MetadataList::AddPlugin\<close> stores the entry under a name that is
  free. The specification does not say what it does with a name that is taken: that is the
  collaborator \<open>AddPlugin_existing\<close>.
\<close>

definition AddPlugin ::
  "'fs Collaborators \<Rightarrow> MetadataList \<Rightarrow> PluginMetadata \<Rightarrow> error + MetadataList" where
  "AddPlugin sys l p =
     (case find (same_plugin p) (Plugins l) of
        None \<Rightarrow> Inr (l\<lparr>Plugins := Plugins l @ [p]\<rparr>)
      | Some q \<Rightarrow>
          (case AddPlugin_existing sys q p of
             Inl e \<Rightarrow> Inl e
           | Inr r \<Rightarrow> Inr (l\<lparr>Plugins := map (\<lambda>x. if same_plugin p x then r else x) (Plugins l)\<rparr>)))"

text \<open>Modelled from the spec: \<^verbatim>\<open>MetadataList::Clear\<close> empties the list.\<close>

definition Clear :: "MetadataList \<Rightarrow> MetadataList" where
  "Clear l = empty_MetadataList"

subsection \<open>Writing metadata\<close>

text \<open>
  \<^verbatim>\<open>ApiDatabase::WriteUserMetadata\<close>: two guards, then \<^verbatim>\<open>userlist_.Save(outputFile)\<close>. The
  result pairs the outcome with the file system as the call leaves it.
\<close>

definition WriteUserMetadata ::
  "'fs Collaborators \<Rightarrow> 'fs \<Rightarrow> ApiDatabase \<Rightarrow> string \<Rightarrow> bool \<Rightarrow> (error + unit) \<times> 'fs" where
  "WriteUserMetadata sys fs db outputFile overwrite =
     (if \<not> exists sys fs (parent_path sys outputFile) then
        (Inl (InvalidArgument ''Output directory does not exist.''), fs)
      else if exists sys fs outputFile \<and> \<not> overwrite then
        (Inl (FileAccessError ''Output file exists but overwrite is not set to true.''), fs)
      else Save sys (the_userlist db) outputFile fs)"

text \<open>
  The body of the loop of \<^verbatim>\<open>ApiDatabase::WriteMinimalList\<close>: a fresh entry of the plugin's
  name that takes over the tags and the dirty info.
\<close>

definition minimalPlugin :: "PluginMetadata \<Rightarrow> PluginMetadata" where
  "minimalPlugin plugin =
     (new_PluginMetadata (GetName plugin))
       \<lparr>GetTags := GetTags plugin, GetDirtyInfo := GetDirtyInfo plugin\<rparr>"

fun add_minimal_plugins ::
  "'fs Collaborators \<Rightarrow> MetadataList \<Rightarrow> PluginMetadata list \<Rightarrow> error + MetadataList" where
  "add_minimal_plugins sys minimalList [] = Inr minimalList"
| "add_minimal_plugins sys minimalList (plugin # rest) =
     (case AddPlugin sys minimalList (minimalPlugin plugin) of
        Inl e \<Rightarrow> Inl e
      | Inr l \<Rightarrow> add_minimal_plugins sys l rest)"

text \<open>
  \<^verbatim>\<open>ApiDatabase::WriteMinimalList\<close>: the same two guards, the loop over
  \<^verbatim>\<open>masterlist_.Plugins()\<close>, then \<^verbatim>\<open>minimalList.Save(outputFile)\<close>.
\<close>

definition WriteMinimalList ::
  "'fs Collaborators \<Rightarrow> 'fs \<Rightarrow> ApiDatabase \<Rightarrow> string \<Rightarrow> bool \<Rightarrow> (error + unit) \<times> 'fs" where
  "WriteMinimalList sys fs db outputFile overwrite =
     (if \<not> exists sys fs (parent_path sys outputFile) then
        (Inl (InvalidArgument ''Output directory does not exist.''), fs)
      else if exists sys fs outputFile \<and> \<not> overwrite then
        (Inl (FileAccessError ''Output file exists but overwrite is not set to true.''), fs)
      else
        (case add_minimal_plugins sys empty_MetadataList (Plugins (the_masterlist db)) of
           Inl e \<Rightarrow> (Inl e, fs)
         | Inr minimalList \<Rightarrow> Save sys minimalList outputFile fs))"

subsection \<open>Updating the masterlist\<close>

text \<open>
  \<^verbatim>\<open>ApiDatabase::UpdateMasterlist\<close>. The result is the outcome, the database and the file
  system as the call leaves them.
\<close>

definition UpdateMasterlist ::
  "'fs Collaborators \<Rightarrow> 'fs \<Rightarrow> ApiDatabase \<Rightarrow> string \<Rightarrow> string \<Rightarrow> string
     \<Rightarrow> (error + bool) \<times> ApiDatabase \<times> 'fs" where
  "UpdateMasterlist sys fs db masterlistPath remoteURL remoteBranch =
     (if \<not> is_directory sys fs (parent_path sys masterlistPath) then
        (Inl (InvalidArgument (''Given masterlist path '' @ [CHR 0x22] @ masterlistPath
           @ [CHR 0x22] @ '' does not have a valid parent directory.'')), db, fs)
      else
        (case Update sys masterlistPath remoteURL remoteBranch fs of
           (Inl e, fs') \<Rightarrow> (Inl e, db, fs')
         | (Inr (changed, masterlist), fs') \<Rightarrow>
             if changed then (Inr True, db\<lparr>the_masterlist := masterlist\<rparr>, fs')
             else (Inr False, db, fs')))"

subsection \<open>Database access functions\<close>

text \<open>\<^verbatim>\<open>ApiDatabase::GetKnownBashTags\<close>.\<close>

definition GetKnownBashTags :: "ApiDatabase \<Rightarrow> string set" where
  "GetKnownBashTags db =
     (let masterlistTags = BashTags (the_masterlist db); userlistTags = BashTags (the_userlist db)
      in if userlistTags \<noteq> {} then masterlistTags \<union> userlistTags else masterlistTags)"

text \<open>
  Modelled from the spec: \<^verbatim>\<open>ConditionEvaluator::evaluate\<close> over the condition cache. An
  absent condition holds; a condition with a cached result yields that result; any other
  is evaluated and, when that succeeds, its result is cached.
\<close>

definition evaluate ::
  "'fs Collaborators \<Rightarrow> 'fs \<Rightarrow> GameCache \<Rightarrow> string option \<Rightarrow> (error + bool) \<times> GameCache" where
  "evaluate sys fs cache condition =
     (case condition of
        None \<Rightarrow> (Inr True, cache)
      | Some c \<Rightarrow>
          (case cache c of
             Some b \<Rightarrow> (Inr b, cache)
           | None \<Rightarrow>
               (case evaluate_uncached sys fs c of
                  Inl e \<Rightarrow> (Inl e, cache)
                | Inr b \<Rightarrow> (Inr b, cache(c \<mapsto> b)))))"

text \<open>
  The loop of \<^verbatim>\<open>ApiDatabase::GetGeneralMessages\<close> that erases every message whose
  condition does not hold; an exception of the evaluator ends it.
\<close>

fun erase_unless_condition ::
  "'fs Collaborators \<Rightarrow> 'fs \<Rightarrow> GameCache \<Rightarrow> Message list
     \<Rightarrow> (error + Message list) \<times> GameCache" where
  "erase_unless_condition sys fs cache [] = (Inr [], cache)"
| "erase_unless_condition sys fs cache (m # ms) =
     (case evaluate sys fs cache (GetCondition m) of
        (Inl e, cache') \<Rightarrow> (Inl e, cache')
      | (Inr holds, cache') \<Rightarrow>
          (case erase_unless_condition sys fs cache' ms of
             (Inl e, cache'') \<Rightarrow> (Inl e, cache'')
           | (Inr kept, cache'') \<Rightarrow> (Inr (if holds then m # kept else kept), cache'')))"

text \<open>\<^verbatim>\<open>ApiDatabase::GetGeneralMessages\<close>.\<close>

definition GetGeneralMessages ::
  "'fs Collaborators \<Rightarrow> 'fs \<Rightarrow> ApiDatabase \<Rightarrow> bool \<Rightarrow> (error + Message list) \<times> ApiDatabase" where
  "GetGeneralMessages sys fs db evaluateConditions =
     (let masterlistMessages = Messages (the_masterlist db);
          userlistMessages = Messages (the_userlist db);
          masterlistMessages =
            (if userlistMessages \<noteq> [] then masterlistMessages @ userlistMessages
             else masterlistMessages)
      in if evaluateConditions then
           (case erase_unless_condition sys fs (ClearCachedConditions (the_gameCache db))
                   masterlistMessages of
              (r, cache) \<Rightarrow> (r, db\<lparr>the_gameCache := cache\<rparr>))
         else (Inr masterlistMessages, db))"

text \<open>\<^verbatim>\<open>ApiDatabase::GetPluginMetadata\<close>.\<close>

definition GetPluginMetadata ::
  "'fs Collaborators \<Rightarrow> 'fs \<Rightarrow> ApiDatabase \<Rightarrow> string \<Rightarrow> bool \<Rightarrow> bool
     \<Rightarrow> (error + PluginMetadata) \<times> ApiDatabase" where
  "GetPluginMetadata sys fs db plugin includeUserMetadata evaluateConditions =
     (let metadata = FindPlugin (the_masterlist db) plugin;
          metadata =
            (if includeUserMetadata
             then MergeMetadata metadata (FindPlugin (the_userlist db) plugin)
             else metadata)
      in if evaluateConditions then
           (case evaluateAll sys fs (the_gameCache db) metadata of
              (r, cache) \<Rightarrow> (r, db\<lparr>the_gameCache := cache\<rparr>))
         else (Inr metadata, db))"

text \<open>
  \<^verbatim>\<open>ApiDatabase::GetPluginUserMetadata\<close>, \<^verbatim>\<open>SetPluginUserMetadata\<close>,
  \<^verbatim>\<open>DiscardPluginUserMetadata\<close> and \<^verbatim>\<open>DiscardAllUserMetadata\<close>.
\<close>

definition GetPluginUserMetadata ::
  "'fs Collaborators \<Rightarrow> 'fs \<Rightarrow> ApiDatabase \<Rightarrow> string \<Rightarrow> bool
     \<Rightarrow> (error + PluginMetadata) \<times> ApiDatabase" where
  "GetPluginUserMetadata sys fs db plugin evaluateConditions =
     (let metadata = FindPlugin (the_userlist db) plugin
      in if evaluateConditions then
           (case evaluateAll sys fs (the_gameCache db) metadata of
              (r, cache) \<Rightarrow> (r, db\<lparr>the_gameCache := cache\<rparr>))
         else (Inr metadata, db))"

definition SetPluginUserMetadata ::
  "'fs Collaborators \<Rightarrow> ApiDatabase \<Rightarrow> PluginMetadata \<Rightarrow> (error + unit) \<times> ApiDatabase" where
  "SetPluginUserMetadata sys db pluginMetadata =
     (let erased = db\<lparr>the_userlist := ErasePlugin (the_userlist db) pluginMetadata\<rparr>
      in case AddPlugin sys (the_userlist erased) pluginMetadata of
           Inl e \<Rightarrow> (Inl e, erased)
         | Inr l \<Rightarrow> (Inr (), erased\<lparr>the_userlist := l\<rparr>))"

definition DiscardPluginUserMetadata :: "ApiDatabase \<Rightarrow> string \<Rightarrow> ApiDatabase" where
  "DiscardPluginUserMetadata db plugin =
     db\<lparr>the_userlist := ErasePlugin (the_userlist db) (new_PluginMetadata plugin)\<rparr>"

definition DiscardAllUserMetadata :: "ApiDatabase \<Rightarrow> ApiDatabase" where
  "DiscardAllUserMetadata db = db\<lparr>the_userlist := Clear (the_userlist db)\<rparr>"

subsection \<open>Notions used in the statements\<close>

text \<open>
  A supplied path is missing when it is non-empty and nothing exists at it.
\<close>

definition missing :: "'fs Collaborators \<Rightarrow> 'fs \<Rightarrow> string \<Rightarrow> bool" where
  "missing sys fs path = (path \<noteq> [] \<and> \<not> exists sys fs path)"

text \<open>
  The specification's visibility of a message: its condition is absent or evaluates to
  true. \<open>condition_error\<close> is the exception the evaluation of a message's condition
  throws, if any, and \<open>first_condition_error\<close> the first one along a list of messages.
\<close>

definition visible :: "'fs Collaborators \<Rightarrow> 'fs \<Rightarrow> Message \<Rightarrow> bool" where
  "visible sys fs m =
     (case GetCondition m of
        None \<Rightarrow> True
      | Some c \<Rightarrow> evaluate_uncached sys fs c = Inr True)"

definition condition_error :: "'fs Collaborators \<Rightarrow> 'fs \<Rightarrow> Message \<Rightarrow> error option" where
  "condition_error sys fs m =
     (case GetCondition m of
        None \<Rightarrow> None
      | Some c \<Rightarrow> (case evaluate_uncached sys fs c of Inl e \<Rightarrow> Some e | Inr b \<Rightarrow> None))"

fun first_condition_error :: "'fs Collaborators \<Rightarrow> 'fs \<Rightarrow> Message list \<Rightarrow> error option" where
  "first_condition_error sys fs [] = None"
| "first_condition_error sys fs (m # ms) =
     (case condition_error sys fs m of
        Some e \<Rightarrow> Some e
      | None \<Rightarrow> first_condition_error sys fs ms)"

text \<open>
  A condition cache agrees with the game's state when every cached result is the result
  the evaluation would give.
\<close>

definition cache_consistent :: "'fs Collaborators \<Rightarrow> 'fs \<Rightarrow> GameCache \<Rightarrow> bool" where
  "cache_consistent sys fs cache =
     (\<forall>c b. cache c = Some b \<longrightarrow> evaluate_uncached sys fs c = Inr b)"

subsection \<open>A concrete file system\<close>

text \<open>
  An instance of the collaborators for the closed examples below. A disk lists its regular
  files, each with what loading it yields, its directories, and the masterlist the remote
  repository holds. The parent of a path is the text before its last slash; a condition
  \<^verbatim>\<open>file:PATH\<close> holds when the path exists, any other text is a syntax error; an update
  reports a change unless the local file already holds the remote masterlist.
\<close>

record Disk =
  disk_files :: "(string \<times> (error + MetadataList)) list"
  disk_directories :: "string list"
  disk_remote :: MetadataList

definition disk_parent_path :: "string \<Rightarrow> string" where
  "disk_parent_path p = rev (drop 1 (dropWhile (\<lambda>c. c \<noteq> CHR ''/'') (rev p)))"

definition disk_exists :: "Disk \<Rightarrow> string \<Rightarrow> bool" where
  "disk_exists d p = (map_of (disk_files d) p \<noteq> None \<or> p \<in> set (disk_directories d))"

definition disk_Load :: "Disk \<Rightarrow> string \<Rightarrow> error + MetadataList" where
  "disk_Load d p =
     (case map_of (disk_files d) p of
        Some r \<Rightarrow> r
      | None \<Rightarrow> Inl (FileAccessError (''Cannot open '' @ p)))"

definition disk_Save :: "MetadataList \<Rightarrow> string \<Rightarrow> Disk \<Rightarrow> (error + unit) \<times> Disk" where
  "disk_Save l p d = (Inr (), d\<lparr>disk_files := (p, Inr l) # disk_files d\<rparr>)"

definition disk_Update ::
  "string \<Rightarrow> string \<Rightarrow> string \<Rightarrow> Disk \<Rightarrow> (error + bool \<times> MetadataList) \<times> Disk" where
  "disk_Update p url branch d =
     (if url = [] then (Inl (GitStateError ''no remote''), d)
      else if map_of (disk_files d) p = Some (Inr (disk_remote d))
        then (Inr (False, empty_MetadataList), d)
      else (Inr (True, disk_remote d),
            d\<lparr>disk_files := (p, Inr (disk_remote d)) # disk_files d\<rparr>))"

definition disk_condition :: "Disk \<Rightarrow> string \<Rightarrow> error + bool" where
  "disk_condition d c =
     (if take 5 c = ''file:'' then Inr (disk_exists d (drop 5 c))
      else Inl (ConditionSyntaxError c))"

definition disk_sys :: "Disk Collaborators" where
  "disk_sys =
     \<lparr> exists = disk_exists,
       is_directory = (\<lambda>d p. p \<in> set (disk_directories d)),
       parent_path = disk_parent_path,
       Masterlist_Load = disk_Load,
       MetadataList_Load = disk_Load,
       Save = disk_Save,
       Update = disk_Update,
       evaluate_uncached = disk_condition,
       evaluateAll = (\<lambda>d cache p. (Inr p, cache)),
       AddPlugin_existing = (\<lambda>q p. Inl (InvalidArgument ''plugin exists'')) \<rparr>"

definition general_message :: Message where
  "general_message =
     \<lparr> message_type = Say,
       message_content = [\<lparr> content_language = ''en'', content_text = ''A general message'' \<rparr>],
       GetCondition = None \<rparr>"

definition relev_tag :: Tag where
  "relev_tag = \<lparr> tag_name = ''Relev'', tag_is_addition = True, tag_condition = None \<rparr>"

definition old_masterlist :: MetadataList where
  "old_masterlist =
     \<lparr> Plugins =
         [(new_PluginMetadata ''Blank.esm'')\<lparr>group := Some ''early'', GetTags := {relev_tag}\<rparr>,
          (new_PluginMetadata ''Blank.esp'')\<lparr>group := Some ''late''\<rparr>],
       Messages = [general_message], BashTags = {''Relev''} \<rparr>"

definition new_masterlist :: MetadataList where
  "new_masterlist =
     \<lparr> Plugins = [(new_PluginMetadata ''Blank.esp'')\<lparr>group := Some ''late''\<rparr>],
       Messages = [], BashTags = {''Delev''} \<rparr>"

definition old_userlist :: MetadataList where
  "old_userlist =
     \<lparr> Plugins = [(new_PluginMetadata ''Blank.esp'')\<lparr>enabled := Some False\<rparr>],
       Messages = [], BashTags = {} \<rparr>"

definition old_db :: ApiDatabase where
  "old_db =
     \<lparr> the_masterlist = old_masterlist, the_userlist = old_userlist,
       the_gameCache = Map.empty \<rparr>"

definition message_if_userlist :: Message where
  "message_if_userlist = general_message\<lparr>GetCondition := Some ''file:data/userlist.yaml''\<rparr>"

definition message_if_missing :: Message where
  "message_if_missing = general_message\<lparr>GetCondition := Some ''file:data/missing.yaml''\<rparr>"

definition messages_db :: ApiDatabase where
  "messages_db =
     \<lparr> the_masterlist = old_masterlist\<lparr>Messages := [general_message, message_if_missing]\<rparr>,
       the_userlist = old_userlist\<lparr>Messages := [message_if_userlist]\<rparr>,
       the_gameCache = [''file:data/missing.yaml'' \<mapsto> True] \<rparr>"

definition disk1 :: Disk where
  "disk1 =
     \<lparr> disk_files =
         [(''data/masterlist.yaml'', Inr new_masterlist),
          (''data/userlist.yaml'', Inr old_userlist),
          (''data/broken.yaml'', Inl (FileAccessError ''Cannot open data/broken.yaml'')),
          (''data/malformed.yaml'', Inl (ConditionSyntaxError ''file(''))],
       disk_directories = [''data''],
       disk_remote = new_masterlist \<rparr>"

section \<open>Properties\<close>

subsection \<open>Facts about the concrete file system\<close>

lemma disk1_facts:
  "exists disk_sys disk1 ''data/masterlist.yaml''"
  "exists disk_sys disk1 ''data/userlist.yaml''"
  "exists disk_sys disk1 ''data/broken.yaml''"
  "exists disk_sys disk1 ''data/malformed.yaml''"
  "exists disk_sys disk1 ''data''"
  "\<not> exists disk_sys disk1 ''data/missing.yaml''"
  "\<not> exists disk_sys disk1 ''data/taglist.yaml''"
  "\<not> exists disk_sys disk1 ''nowhere''"
  "is_directory disk_sys disk1 ''data''"
  "Masterlist_Load disk_sys disk1 ''data/masterlist.yaml'' = Inr new_masterlist"
  "MetadataList_Load disk_sys disk1 ''data/userlist.yaml'' = Inr old_userlist"
  "MetadataList_Load disk_sys disk1 ''data/broken.yaml'' =
     Inl (FileAccessError ''Cannot open data/broken.yaml'')"
  "Masterlist_Load disk_sys disk1 ''data/broken.yaml'' =
     Inl (FileAccessError ''Cannot open data/broken.yaml'')"
  "Masterlist_Load disk_sys disk1 ''data/malformed.yaml'' =
     Inl (ConditionSyntaxError ''file('')"
  by (simp_all add: disk_sys_def disk1_def disk_exists_def disk_Load_def)

lemma disk_parent_facts:
  "parent_path disk_sys ''data/userlist.yaml'' = ''data''"
  "parent_path disk_sys ''data/taglist.yaml'' = ''data''"
  "parent_path disk_sys ''data/fresh.yaml'' = ''data''"
  "parent_path disk_sys ''nowhere/userlist.yaml'' = ''nowhere''"
  by (simp_all add: disk_sys_def disk_parent_path_def)

subsection \<open>Loading the lists\<close>

text \<open>
  C8, as the code has it. \<^verbatim>\<open>LoadLists\<close> accepts the empty string for either path: with both
  empty it succeeds. It throws \<^verbatim>\<open>FileAccessError\<close> when the masterlist path is missing
  (non-empty, nothing exists at it), and when the masterlist path is empty or its file
  exists and loads, and the userlist path is missing. Where every supplied file that exists
  loads without an exception, it throws \<^verbatim>\<open>FileAccessError\<close> if and only if a supplied path
  is missing, and it succeeds if and only if none is.
\<close>

theorem LoadLists_missing_path_FileAccessError:
  "(missing sys fs m \<longrightarrow>
      fst (LoadLists sys fs db m u) =
        Inl (FileAccessError (''The given masterlist path does not exist: '' @ m)))
   \<and> ((m = [] \<or> exists sys fs m \<and> (\<exists>l. Masterlist_Load sys fs m = Inr l))
       \<and> missing sys fs u \<longrightarrow>
      fst (LoadLists sys fs db m u) =
        Inl (FileAccessError (''The given userlist path does not exist: '' @ u)))
   \<and> ((m = [] \<or> missing sys fs m \<or> (\<exists>l. Masterlist_Load sys fs m = Inr l))
       \<and> (u = [] \<or> missing sys fs u \<or> (\<exists>l. MetadataList_Load sys fs u = Inr l)) \<longrightarrow>
      ((\<exists>msg. fst (LoadLists sys fs db m u) = Inl (FileAccessError msg))
         \<longleftrightarrow> missing sys fs m \<or> missing sys fs u)
      \<and> (fst (LoadLists sys fs db m u) = Inr ()
         \<longleftrightarrow> \<not> (missing sys fs m \<or> missing sys fs u)))
   \<and> fst (LoadLists sys fs db [] []) = Inr ()"
  by (auto simp: LoadLists_def missing_def split: sum.splits if_splits)

text \<open>
  An instance: the masterlist file exists and loads, the userlist path is missing, and the
  call throws \<^verbatim>\<open>FileAccessError\<close>; with the userlist file in place it succeeds.
\<close>

theorem LoadLists_missing_path_FileAccessError_witness:
  "missing disk_sys disk1 ''data/missing.yaml''
   \<and> \<not> missing disk_sys disk1 ''data/masterlist.yaml''
   \<and> fst (LoadLists disk_sys disk1 old_db ''data/masterlist.yaml'' ''data/missing.yaml'') =
       Inl (FileAccessError ''The given userlist path does not exist: data/missing.yaml'')
   \<and> (\<exists>msg. fst (LoadLists disk_sys disk1 old_db ''data/masterlist.yaml''
                     ''data/missing.yaml'') = Inl (FileAccessError msg))
   \<and> fst (LoadLists disk_sys disk1 old_db ''data/masterlist.yaml'' ''data/userlist.yaml'') =
       Inr ()"
  using LoadLists_missing_path_FileAccessError
      [of disk_sys disk1 "''data/masterlist.yaml''" old_db "''data/missing.yaml''"]
    LoadLists_missing_path_FileAccessError
      [of disk_sys disk1 "''data/masterlist.yaml''" old_db "''data/userlist.yaml''"]
  by (simp add: missing_def disk1_facts)

text \<open>
  Why the equivalence does not hold without the proviso on the loads. A masterlist file that
  exists and cannot be read makes the call throw the \<^verbatim>\<open>FileAccessError\<close> of
  \<^verbatim>\<open>Masterlist::Load\<close> although no supplied path is missing; and a masterlist file whose load
  throws another kind of error hides a missing userlist path, since the userlist is only
  looked at after the masterlist has loaded.
\<close>

theorem LoadLists_load_failure_counterexample:
  "\<not> missing disk_sys disk1 ''data/broken.yaml''
   \<and> \<not> missing disk_sys disk1 []
   \<and> fst (LoadLists disk_sys disk1 old_db ''data/broken.yaml'' []) =
       Inl (FileAccessError ''Cannot open data/broken.yaml'')
   \<and> missing disk_sys disk1 ''data/missing.yaml''
   \<and> fst (LoadLists disk_sys disk1 old_db ''data/malformed.yaml'' ''data/missing.yaml'') =
       Inl (ConditionSyntaxError ''file('')
   \<and> \<not> is_FileAccessError (ConditionSyntaxError ''file('')"
  by (simp add: LoadLists_def missing_def disk1_facts)

text \<open>
  C9. \<^verbatim>\<open>LoadLists\<close> is atomic with respect to failure: whatever makes it throw (a missing
  file, or an exception of either load), the database is left as it was, masterlist and
  userlist included, because both members are assigned after the last statement that can
  throw.
\<close>

theorem LoadLists_failure_keeps_lists:
  "fst (LoadLists sys fs db m u) = Inl e \<Longrightarrow> snd (LoadLists sys fs db m u) = db"
  by (auto simp: LoadLists_def split: sum.splits if_splits)

text \<open>
  An instance: the masterlist file loads, the userlist file cannot be read; the stored
  masterlist is still the old one, not the one just parsed.
\<close>

theorem LoadLists_failure_keeps_lists_witness:
  "fst (LoadLists disk_sys disk1 old_db ''data/masterlist.yaml'' ''data/broken.yaml'') =
     Inl (FileAccessError ''Cannot open data/broken.yaml'')
   \<and> snd (LoadLists disk_sys disk1 old_db ''data/masterlist.yaml'' ''data/broken.yaml'') =
       old_db
   \<and> the_masterlist old_db \<noteq> new_masterlist"
proof -
  have h: "fst (LoadLists disk_sys disk1 old_db ''data/masterlist.yaml'' ''data/broken.yaml'') =
     Inl (FileAccessError ''Cannot open data/broken.yaml'')"
    by (simp add: LoadLists_def disk1_facts)
  have "the_masterlist old_db \<noteq> new_masterlist"
    by (simp add: old_db_def old_masterlist_def new_masterlist_def)
  with h LoadLists_failure_keeps_lists [OF h] show ?thesis by simp
qed

text \<open>
  C10. A successful \<^verbatim>\<open>LoadLists\<close> overwrites both stored lists: a list whose path is the
  empty string becomes the empty list, whatever was loaded before, and a list whose path is
  given becomes what its load returned. The condition cache is not touched.
\<close>

theorem LoadLists_success_overwrites_both:
  "fst (LoadLists sys fs db m u) = Inr () \<Longrightarrow>
     (m = [] \<longrightarrow> the_masterlist (snd (LoadLists sys fs db m u)) = empty_MetadataList)
   \<and> (u = [] \<longrightarrow> the_userlist (snd (LoadLists sys fs db m u)) = empty_MetadataList)
   \<and> (m \<noteq> [] \<longrightarrow>
        Masterlist_Load sys fs m = Inr (the_masterlist (snd (LoadLists sys fs db m u))))
   \<and> (u \<noteq> [] \<longrightarrow>
        MetadataList_Load sys fs u = Inr (the_userlist (snd (LoadLists sys fs db m u))))
   \<and> the_gameCache (snd (LoadLists sys fs db m u)) = the_gameCache db"
  by (auto simp: LoadLists_def split: sum.splits if_splits)

text \<open>
  An instance: a database that holds a masterlist, loaded again with an empty masterlist
  path, holds the empty masterlist afterwards.
\<close>

theorem LoadLists_success_overwrites_both_witness:
  "fst (LoadLists disk_sys disk1 old_db [] ''data/userlist.yaml'') = Inr ()
   \<and> the_masterlist old_db = old_masterlist
   \<and> old_masterlist \<noteq> empty_MetadataList
   \<and> the_masterlist (snd (LoadLists disk_sys disk1 old_db [] ''data/userlist.yaml'')) =
       empty_MetadataList
   \<and> the_userlist (snd (LoadLists disk_sys disk1 old_db [] ''data/userlist.yaml'')) =
       old_userlist"
proof -
  have h: "fst (LoadLists disk_sys disk1 old_db [] ''data/userlist.yaml'') = Inr ()"
    by (simp add: LoadLists_def disk1_facts)
  have "old_masterlist \<noteq> empty_MetadataList"
    by (simp add: old_masterlist_def empty_MetadataList_def)
  with h LoadLists_success_overwrites_both [OF h] show ?thesis
    by (simp add: old_db_def disk1_facts)
qed

subsection \<open>Writing metadata\<close>

text \<open>
  C7, as the code has it. \<^verbatim>\<open>WriteUserMetadata\<close> and \<^verbatim>\<open>WriteMinimalList\<close> throw
  \<^verbatim>\<open>std::invalid_argument\<close> (InvalidArgument) when the parent directory of the output file
  does not exist, and \<^verbatim>\<open>FileAccessError\<close> when the parent exists, the output file exists
  and \<^verbatim>\<open>overwrite\<close> is false. In both cases nothing is written: \<^verbatim>\<open>Save\<close> is not called and
  the file system is as before.
\<close>

theorem Write_guards_error_kinds:
  "(\<not> exists sys fs (parent_path sys outputFile) \<longrightarrow>
      WriteUserMetadata sys fs db outputFile overwrite =
        (Inl (InvalidArgument ''Output directory does not exist.''), fs)
      \<and> WriteMinimalList sys fs db outputFile overwrite =
        (Inl (InvalidArgument ''Output directory does not exist.''), fs))
   \<and> (exists sys fs (parent_path sys outputFile) \<and> exists sys fs outputFile \<and> \<not> overwrite
        \<longrightarrow>
      WriteUserMetadata sys fs db outputFile overwrite =
        (Inl (FileAccessError ''Output file exists but overwrite is not set to true.''), fs)
      \<and> WriteMinimalList sys fs db outputFile overwrite =
        (Inl (FileAccessError ''Output file exists but overwrite is not set to true.''), fs))"
  by (simp add: WriteUserMetadata_def WriteMinimalList_def)

text \<open>
  Instances: an output path under a directory that does not exist, and an output path at
  which a file exists, written without \<^verbatim>\<open>overwrite\<close>.
\<close>

theorem Write_guards_error_kinds_witness:
  "\<not> exists disk_sys disk1 (parent_path disk_sys ''nowhere/userlist.yaml'')
   \<and> WriteUserMetadata disk_sys disk1 old_db ''nowhere/userlist.yaml'' True =
       (Inl (InvalidArgument ''Output directory does not exist.''), disk1)
   \<and> WriteMinimalList disk_sys disk1 old_db ''nowhere/userlist.yaml'' True =
       (Inl (InvalidArgument ''Output directory does not exist.''), disk1)
   \<and> exists disk_sys disk1 (parent_path disk_sys ''data/userlist.yaml'')
   \<and> exists disk_sys disk1 ''data/userlist.yaml''
   \<and> WriteUserMetadata disk_sys disk1 old_db ''data/userlist.yaml'' False =
       (Inl (FileAccessError ''Output file exists but overwrite is not set to true.''), disk1)
   \<and> WriteMinimalList disk_sys disk1 old_db ''data/userlist.yaml'' False =
       (Inl (FileAccessError ''Output file exists but overwrite is not set to true.''), disk1)"
  using Write_guards_error_kinds [of disk_sys disk1 "''nowhere/userlist.yaml''" old_db True]
    Write_guards_error_kinds [of disk_sys disk1 "''data/userlist.yaml''" old_db False]
  by (simp add: disk1_facts disk_parent_facts)

text \<open>
  The error kind of the second guard at a concrete input: with the parent directory in
  place, an existing output file and \<^verbatim>\<open>overwrite\<close> false, the error thrown is a
  \<^verbatim>\<open>FileAccessError\<close>, not an InvalidArgument.
\<close>

theorem Write_existing_file_counterexample:
  "exists disk_sys disk1 (parent_path disk_sys ''data/userlist.yaml'')
   \<and> exists disk_sys disk1 ''data/userlist.yaml''
   \<and> fst (WriteUserMetadata disk_sys disk1 old_db ''data/userlist.yaml'' False) =
       Inl (FileAccessError ''Output file exists but overwrite is not set to true.'')
   \<and> fst (WriteMinimalList disk_sys disk1 old_db ''data/userlist.yaml'' False) =
       Inl (FileAccessError ''Output file exists but overwrite is not set to true.'')
   \<and> \<not> is_InvalidArgument
         (FileAccessError ''Output file exists but overwrite is not set to true.'')"
  by (simp add: WriteUserMetadata_def WriteMinimalList_def disk1_facts disk_parent_facts)

subsection \<open>Updating the masterlist\<close>

text \<open>
  C4. Where the parent of the path is a directory, \<^verbatim>\<open>UpdateMasterlist\<close> does what
  \<^verbatim>\<open>Masterlist::Update\<close> reports: when the update reports a change, it returns true and the
  stored masterlist is the one the update parsed; when the update reports no change, it
  returns false and the database is the one before the call; when the update throws, the
  exception goes on to the caller and the database is the one before the call. Where the
  parent is not a directory it throws \<^verbatim>\<open>std::invalid_argument\<close> and touches nothing. So true
  is returned exactly when the parent is a directory and the update reports a change, and
  whenever true is not returned the database is the one before the call. Where the update
  keeps its contract at this call (it reports a change exactly when the contents at the
  path changed on disk, and leaves those contents as they were when it throws), true is
  returned exactly when the contents at the path changed on disk.
\<close>

theorem UpdateMasterlist_swaps_exactly_on_change:
  fixes contents :: "'fs \<Rightarrow> string \<Rightarrow> 'c"
  shows
    "(is_directory sys fs (parent_path sys p) \<longrightarrow>
        (\<forall>ml f. Update sys p url br fs = (Inr (True, ml), f) \<longrightarrow>
           UpdateMasterlist sys fs db p url br = (Inr True, db\<lparr>the_masterlist := ml\<rparr>, f))
      \<and> (\<forall>ml f. Update sys p url br fs = (Inr (False, ml), f) \<longrightarrow>
           UpdateMasterlist sys fs db p url br = (Inr False, db, f))
      \<and> (\<forall>e f. Update sys p url br fs = (Inl e, f) \<longrightarrow>
           UpdateMasterlist sys fs db p url br = (Inl e, db, f)))
     \<and> (\<not> is_directory sys fs (parent_path sys p) \<longrightarrow>
          (\<exists>msg. UpdateMasterlist sys fs db p url br = (Inl (InvalidArgument msg), db, fs)))
     \<and> (fst (UpdateMasterlist sys fs db p url br) = Inr True \<longleftrightarrow>
          is_directory sys fs (parent_path sys p)
          \<and> (\<exists>ml f. Update sys p url br fs = (Inr (True, ml), f)))
     \<and> (fst (UpdateMasterlist sys fs db p url br) \<noteq> Inr True \<longrightarrow>
          fst (snd (UpdateMasterlist sys fs db p url br)) = db)
     \<and> ((\<forall>c ml f. Update sys p url br fs = (Inr (c, ml), f)
              \<longrightarrow> c = (contents f p \<noteq> contents fs p))
          \<and> (\<forall>e f. Update sys p url br fs = (Inl e, f) \<longrightarrow> contents f p = contents fs p)
          \<longrightarrow>
          (fst (UpdateMasterlist sys fs db p url br) = Inr True \<longleftrightarrow>
             contents (snd (snd (UpdateMasterlist sys fs db p url br))) p \<noteq> contents fs p))"
proof -
  obtain u f where upd: "Update sys p url br fs = (u, f)"
    by (cases "Update sys p url br fs")
  show ?thesis
  proof (cases "is_directory sys fs (parent_path sys p)")
    case False
    then show ?thesis by (simp add: UpdateMasterlist_def)
  next
    case True
    show ?thesis
    proof (cases u)
      case (Inl e)
      with True upd show ?thesis by (simp add: UpdateMasterlist_def)
    next
      case (Inr cm)
      obtain c ml where cm: "cm = (c, ml)" by (cases cm)
      with True upd Inr show ?thesis by (cases c) (auto simp: UpdateMasterlist_def)
    qed
  qed
qed

text \<open>
  Instances on the concrete file system, each with the update keeping its contract. Nothing
  is at the local path yet: the update writes the file and reports the change, true is
  returned and the database holds the remote masterlist. The local file already holds the
  remote masterlist: false is returned and the database is as before. No remote is given:
  the update throws, and the database and the contents on disk are as before.
\<close>

theorem UpdateMasterlist_swaps_exactly_on_change_witness:
  "is_directory disk_sys disk1 (parent_path disk_sys ''data/fresh.yaml'')
   \<and> UpdateMasterlist disk_sys disk1 old_db ''data/fresh.yaml'' ''https://example.org/list.git''
       ''master'' =
     (Inr True, old_db\<lparr>the_masterlist := new_masterlist\<rparr>,
      disk1\<lparr>disk_files := (''data/fresh.yaml'', Inr new_masterlist) # disk_files disk1\<rparr>)
   \<and> map_of (disk_files (snd (snd (UpdateMasterlist disk_sys disk1 old_db ''data/fresh.yaml''
         ''https://example.org/list.git'' ''master''))))
         ''data/fresh.yaml'' \<noteq> map_of (disk_files disk1) ''data/fresh.yaml''
   \<and> the_masterlist old_db \<noteq> new_masterlist
   \<and> UpdateMasterlist disk_sys disk1 old_db ''data/masterlist.yaml''
       ''https://example.org/list.git'' ''master'' = (Inr False, old_db, disk1)
   \<and> UpdateMasterlist disk_sys disk1 old_db ''data/masterlist.yaml'' [] ''master'' =
       (Inl (GitStateError ''no remote''), old_db, disk1)"
proof -
  let ?p = "''data/fresh.yaml''" and ?q = "''data/masterlist.yaml''"
  let ?url = "''https://example.org/list.git''"
  let ?fs' = "disk1\<lparr>disk_files := (?p, Inr new_masterlist) # disk_files disk1\<rparr>"
  let ?contents = "\<lambda>d. map_of (disk_files d)"
  have dir: "is_directory disk_sys disk1 (parent_path disk_sys ?p)"
    "is_directory disk_sys disk1 (parent_path disk_sys ?q)"
    by (simp_all add: disk_sys_def disk_parent_path_def disk1_def)
  have upd: "Update disk_sys ?p ?url ''master'' disk1 = (Inr (True, new_masterlist), ?fs')"
    by (simp add: disk_sys_def disk_Update_def disk1_def)
  have same: "Update disk_sys ?q ?url ''master'' disk1 = (Inr (False, empty_MetadataList), disk1)"
    by (simp add: disk_sys_def disk_Update_def disk1_def)
  have fail: "Update disk_sys ?q [] ''master'' disk1 = (Inl (GitStateError ''no remote''), disk1)"
    by (simp add: disk_sys_def disk_Update_def)
  have contract:
    "(\<forall>c ml f. Update disk_sys ?p ?url ''master'' disk1 = (Inr (c, ml), f) \<longrightarrow>
        c = (?contents f ?p \<noteq> ?contents disk1 ?p))
     \<and> (\<forall>e f. Update disk_sys ?p ?url ''master'' disk1 = (Inl e, f) \<longrightarrow>
        ?contents f ?p = ?contents disk1 ?p)"
    by (auto simp: upd) (simp add: disk1_def)
  have old: "the_masterlist old_db \<noteq> new_masterlist"
    by (simp add: old_db_def old_masterlist_def new_masterlist_def)
  note fresh = UpdateMasterlist_swaps_exactly_on_change
    [of disk_sys disk1 ?p ?url "''master''" old_db ?contents]
  note kept = UpdateMasterlist_swaps_exactly_on_change
    [of disk_sys disk1 ?q ?url "''master''" old_db ?contents]
  note failed = UpdateMasterlist_swaps_exactly_on_change
    [of disk_sys disk1 ?q "[]" "''master''" old_db ?contents]
  from fresh dir upd
  have 1: "UpdateMasterlist disk_sys disk1 old_db ?p ?url ''master'' =
      (Inr True, old_db\<lparr>the_masterlist := new_masterlist\<rparr>, ?fs')"
    by blast
  from fresh contract 1
  have 2: "?contents (snd (snd (UpdateMasterlist disk_sys disk1 old_db ?p ?url ''master''))) ?p
      \<noteq> ?contents disk1 ?p"
    by (metis fst_conv)
  from kept dir same
  have 3: "UpdateMasterlist disk_sys disk1 old_db ?q ?url ''master'' = (Inr False, old_db, disk1)"
    by blast
  from failed dir fail
  have 4: "UpdateMasterlist disk_sys disk1 old_db ?q [] ''master'' =
      (Inl (GitStateError ''no remote''), old_db, disk1)"
    by blast
  from dir(1) 1 2 old 3 4 show ?thesis by simp
qed

subsection \<open>General messages\<close>

lemma evaluate_consistent:
  assumes "cache_consistent sys fs cache"
  shows "fst (evaluate sys fs cache cond) =
           (case cond of None \<Rightarrow> Inr True | Some c \<Rightarrow> evaluate_uncached sys fs c)"
    and "cache_consistent sys fs (snd (evaluate sys fs cache cond))"
  using assms
  by (auto simp: evaluate_def cache_consistent_def split: option.splits sum.splits)

lemma erase_unless_condition_consistent:
  "cache_consistent sys fs cache \<Longrightarrow>
     fst (erase_unless_condition sys fs cache ms) =
       (case first_condition_error sys fs ms of
          Some e \<Rightarrow> Inl e
        | None \<Rightarrow> Inr (filter (visible sys fs) ms))"
proof (induction ms arbitrary: cache)
  case Nil
  then show ?case by simp
next
  case (Cons m ms)
  obtain r cache' where ev: "evaluate sys fs cache (GetCondition m) = (r, cache')"
    by (cases "evaluate sys fs cache (GetCondition m)")
  from evaluate_consistent [OF Cons.prems, of "GetCondition m"] ev
  have r: "r = (case GetCondition m of None \<Rightarrow> Inr True | Some c \<Rightarrow> evaluate_uncached sys fs c)"
    and c': "cache_consistent sys fs cache'"
    by simp_all
  show ?case
  proof (cases r)
    case (Inl e)
    with r obtain c where "GetCondition m = Some c" and "evaluate_uncached sys fs c = Inl e"
      by (auto split: option.splits)
    then have "condition_error sys fs m = Some e"
      by (simp add: condition_error_def)
    with ev Inl show ?thesis by simp
  next
    case (Inr holds)
    obtain r2 cache2 where rest: "erase_unless_condition sys fs cache' ms = (r2, cache2)"
      by (cases "erase_unless_condition sys fs cache' ms")
    from Cons.IH [OF c'] rest
    have r2: "r2 = (case first_condition_error sys fs ms of
          Some e \<Rightarrow> Inl e | None \<Rightarrow> Inr (filter (visible sys fs) ms))"
      by simp
    from Inr r have ce: "condition_error sys fs m = None"
      and vis: "visible sys fs m = holds"
      by (auto simp: condition_error_def visible_def split: option.splits sum.splits)
    show ?thesis
      using ev Inr rest r2 ce vis
      by (simp split: option.splits)
  qed
qed

text \<open>
  C3. Without evaluation \<^verbatim>\<open>GetGeneralMessages\<close> returns the general messages of the
  masterlist followed by those of the userlist. With evaluation it throws the first
  exception that the condition of a message raises, if there is one; otherwise it returns,
  in the same order, exactly the messages that are visible: those whose condition is absent
  or evaluates to true. The condition cache is cleared first: what the cache held before
  the call has no influence on what the call returns or leaves behind.
\<close>

theorem GetGeneralMessages_visible_messages:
  "GetGeneralMessages sys fs db False =
     (Inr (Messages (the_masterlist db) @ Messages (the_userlist db)), db)
   \<and> fst (GetGeneralMessages sys fs db True) =
       (case first_condition_error sys fs
               (Messages (the_masterlist db) @ Messages (the_userlist db)) of
          Some e \<Rightarrow> Inl e
        | None \<Rightarrow>
            Inr (filter (visible sys fs)
                   (Messages (the_masterlist db) @ Messages (the_userlist db))))
   \<and> GetGeneralMessages sys fs (db\<lparr>the_gameCache := stale\<rparr>) True =
       GetGeneralMessages sys fs db True"
proof -
  have cleared: "cache_consistent sys fs (ClearCachedConditions c)" for c
    by (simp add: cache_consistent_def ClearCachedConditions_def)
  have app: "(if us \<noteq> [] then ms @ us else ms) = ms @ us" for ms us :: "Message list"
    by simp
  have 1: "GetGeneralMessages sys fs db False =
     (Inr (Messages (the_masterlist db) @ Messages (the_userlist db)), db)"
    by (simp add: GetGeneralMessages_def Let_def)
  have 2: "fst (GetGeneralMessages sys fs db True) =
       (case first_condition_error sys fs
               (Messages (the_masterlist db) @ Messages (the_userlist db)) of
          Some e \<Rightarrow> Inl e
        | None \<Rightarrow>
            Inr (filter (visible sys fs)
                   (Messages (the_masterlist db) @ Messages (the_userlist db))))"
    using erase_unless_condition_consistent [OF cleared,
      of "the_gameCache db" "Messages (the_masterlist db) @ Messages (the_userlist db)"]
    by (simp add: GetGeneralMessages_def Let_def app case_prod_unfold)
  have 3: "GetGeneralMessages sys fs (db\<lparr>the_gameCache := stale\<rparr>) True =
       GetGeneralMessages sys fs db True"
    by (simp add: GetGeneralMessages_def Let_def ClearCachedConditions_def case_prod_unfold)
  from 1 2 3 show ?thesis by blast
qed

text \<open>
  An instance: a message without a condition, one whose condition names a file that is
  absent and one whose condition names a file that exists; the cache still holds a stale
  result, true, for the absent file. The evaluating query returns the first and the third.
\<close>

theorem GetGeneralMessages_visible_messages_witness:
  "GetGeneralMessages disk_sys disk1 messages_db False =
     (Inr [general_message, message_if_missing, message_if_userlist], messages_db)
   \<and> the_gameCache messages_db ''file:data/missing.yaml'' = Some True
   \<and> fst (GetGeneralMessages disk_sys disk1 messages_db True) =
       Inr [general_message, message_if_userlist]"
proof -
  have c: "evaluate_uncached disk_sys disk1 ''file:data/missing.yaml'' = Inr False"
    "evaluate_uncached disk_sys disk1 ''file:data/userlist.yaml'' = Inr True"
    by (simp_all add: disk_sys_def disk_condition_def disk_exists_def disk1_def)
  have m: "Messages (the_masterlist messages_db) @ Messages (the_userlist messages_db) =
      [general_message, message_if_missing, message_if_userlist]"
    by (simp add: messages_db_def)
  have e: "condition_error disk_sys disk1 general_message = None"
    "condition_error disk_sys disk1 message_if_missing = None"
    "condition_error disk_sys disk1 message_if_userlist = None"
    by (simp_all add: condition_error_def general_message_def message_if_missing_def
        message_if_userlist_def c)
  have v: "visible disk_sys disk1 general_message"
    "\<not> visible disk_sys disk1 message_if_missing"
    "visible disk_sys disk1 message_if_userlist"
    by (simp_all add: visible_def general_message_def message_if_missing_def
        message_if_userlist_def c)
  have s: "the_gameCache messages_db ''file:data/missing.yaml'' = Some True"
    by (simp add: messages_db_def)
  from GetGeneralMessages_visible_messages [of disk_sys disk1 messages_db] s
  show ?thesis by (simp add: m e v)
qed

subsection \<open>Merging plugin metadata\<close>

lemma union_by_key_empty [simp]:
  "union_by_key key A {} = A" "union_by_key key {} B = B"
  by (simp_all add: union_by_key_def)

lemma MergeMetadata_empty_right: "MergeMetadata x (new_PluginMetadata n) = x"
  by (cases x) (simp add: MergeMetadata_def new_PluginMetadata_def)

lemma MergeMetadata_empty_left: "MergeMetadata (new_PluginMetadata (GetName x)) x = x"
  by (cases x) (simp add: MergeMetadata_def new_PluginMetadata_def split: option.splits)

text \<open>
  C5. The empty metadata value is a two-sided identity of the merge: merging the empty
  value of any name into \<open>x\<close> leaves \<open>x\<close> unchanged, and merging \<open>x\<close> into the empty value of
  its plugin (the value \<^verbatim>\<open>FindPlugin\<close> yields for a plugin without an entry) yields \<open>x\<close>.
\<close>

theorem MergeMetadata_empty_identity:
  "MergeMetadata x (new_PluginMetadata n) = x
   \<and> MergeMetadata (new_PluginMetadata (GetName x)) x = x"
  by (simp add: MergeMetadata_empty_right MergeMetadata_empty_left)

subsection \<open>User metadata\<close>

lemma find_same_plugin_erased:
  "find (same_plugin p) (filter (\<lambda>q. \<not> same_plugin p q) ps) = None"
  by (simp add: find_None_iff)

lemma same_plugin_refl [simp]: "same_plugin p p"
  by (simp add: same_plugin_def)

lemma same_plugin_new [simp]: "same_plugin (new_PluginMetadata (GetName p)) = same_plugin p"
  by (rule ext) (simp add: same_plugin_def new_PluginMetadata_def)

lemma find_append_fresh:
  "find P xs = None \<Longrightarrow> P x \<Longrightarrow> find P (xs @ [x]) = Some x"
  by (induction xs) (auto split: if_splits)

text \<open>
  C6. \<^verbatim>\<open>SetPluginUserMetadata\<close> erases the entry of the plugin's name and then adds the
  supplied one; the call always succeeds, whatever \<^verbatim>\<open>AddPlugin\<close> would do with a name that
  is taken. Afterwards the userlist holds its other entries and the supplied entry, which is
  the only one of that name (it has replaced a prior entry, not been merged with it), and
  \<^verbatim>\<open>GetPluginUserMetadata\<close> for that name returns exactly the supplied entry; where it is
  asked to evaluate conditions, it is the supplied entry that \<^verbatim>\<open>evaluateAll\<close> is given.
\<close>

theorem SetPluginUserMetadata_replaces_entry:
  "fst (SetPluginUserMetadata sys db p) = Inr ()
   \<and> snd (SetPluginUserMetadata sys db p) =
       db\<lparr>the_userlist :=
            (the_userlist db)
              \<lparr>Plugins := filter (\<lambda>q. \<not> same_plugin p q) (Plugins (the_userlist db)) @ [p]\<rparr>\<rparr>
   \<and> AddPlugin sys (ErasePlugin (the_userlist db) p) p =
       Inr (the_userlist (snd (SetPluginUserMetadata sys db p)))
   \<and> filter (same_plugin p) (Plugins (the_userlist (snd (SetPluginUserMetadata sys db p)))) =
       [p]
   \<and> GetPluginUserMetadata sys fs (snd (SetPluginUserMetadata sys db p)) (GetName p) False =
       (Inr p, snd (SetPluginUserMetadata sys db p))
   \<and> GetPluginUserMetadata sys fs (snd (SetPluginUserMetadata sys db p)) (GetName p) True =
       (case evaluateAll sys fs (the_gameCache db) p of
          (r, cache) \<Rightarrow> (r, (snd (SetPluginUserMetadata sys db p))\<lparr>the_gameCache := cache\<rparr>))"
proof -
  let ?erased = "filter (\<lambda>q. \<not> same_plugin p q) (Plugins (the_userlist db))"
  have add: "AddPlugin sys (ErasePlugin (the_userlist db) p) p =
      Inr ((the_userlist db)\<lparr>Plugins := ?erased @ [p]\<rparr>)"
    by (simp add: AddPlugin_def ErasePlugin_def find_same_plugin_erased)
  have set: "SetPluginUserMetadata sys db p =
      (Inr (), db\<lparr>the_userlist := (the_userlist db)\<lparr>Plugins := ?erased @ [p]\<rparr>\<rparr>)"
    by (simp add: SetPluginUserMetadata_def Let_def add)
  have found: "find (same_plugin p) (?erased @ [p]) = Some p"
    by (rule find_append_fresh) (simp_all add: find_same_plugin_erased)
  have only: "filter (same_plugin p) (?erased @ [p]) = [p]"
    by (simp add: filter_empty_conv)
  show ?thesis
    by (simp add: set add only GetPluginUserMetadata_def FindPlugin_def found)
qed

subsection \<open>Further properties of the facade\<close>

lemma minimalPlugin_fields:
  "GetName (minimalPlugin p) = GetName p"
  "GetTags (minimalPlugin p) = GetTags p"
  "GetDirtyInfo (minimalPlugin p) = GetDirtyInfo p"
  "(minimalPlugin p)\<lparr>GetTags := {}, GetDirtyInfo := {}\<rparr> = new_PluginMetadata (GetName p)"
  by (simp_all add: minimalPlugin_def new_PluginMetadata_def)

lemma add_minimal_plugins_distinct:
  "distinct (map (normalise \<circ> GetName) ps) \<Longrightarrow>
   (\<forall>q \<in> set (Plugins l). \<forall>p \<in> set ps. normalise (GetName q) \<noteq> normalise (GetName p)) \<Longrightarrow>
   add_minimal_plugins sys l ps = Inr (l\<lparr>Plugins := Plugins l @ map minimalPlugin ps\<rparr>)"
proof (induction ps arbitrary: l)
  case Nil
  then show ?case by simp
next
  case (Cons p ps)
  have "find (same_plugin (minimalPlugin p)) (Plugins l) = None"
    using Cons.prems(2) by (auto simp: find_None_iff same_plugin_def minimalPlugin_fields)
  then have add: "AddPlugin sys l (minimalPlugin p) =
      Inr (l\<lparr>Plugins := Plugins l @ [minimalPlugin p]\<rparr>)"
    by (simp add: AddPlugin_def)
  have "add_minimal_plugins sys (l\<lparr>Plugins := Plugins l @ [minimalPlugin p]\<rparr>) ps =
      Inr ((l\<lparr>Plugins := Plugins l @ [minimalPlugin p]\<rparr>)
        \<lparr>Plugins := Plugins (l\<lparr>Plugins := Plugins l @ [minimalPlugin p]\<rparr>)
                      @ map minimalPlugin ps\<rparr>)"
    using Cons.prems by (intro Cons.IH) (auto simp: minimalPlugin_fields)
  with add show ?case by simp
qed

text \<open>
  The list that \<^verbatim>\<open>WriteMinimalList\<close> saves. Where the guards pass and the masterlist holds no
  two entries of the same normalised name, \<^verbatim>\<open>Save\<close> is called on a list without general
  messages and known tags that holds one entry for every masterlist plugin, in the order
  of \<^verbatim>\<open>Plugins()\<close>; the entry has the plugin's name, tags and dirty info and nothing else.
  A plugin without tags and dirty info has an entry too, one that holds its name only.
\<close>

theorem WriteMinimalList_saves_minimal_entries:
  assumes "exists sys fs (parent_path sys outputFile)"
    and "exists sys fs outputFile \<longrightarrow> overwrite"
    and "distinct (map (normalise \<circ> GetName) (Plugins (the_masterlist db)))"
  shows "WriteMinimalList sys fs db outputFile overwrite =
           Save sys \<lparr> Plugins = map minimalPlugin (Plugins (the_masterlist db)),
                      Messages = [], BashTags = {} \<rparr> outputFile fs
         \<and> (\<forall>p. GetName (minimalPlugin p) = GetName p
                \<and> GetTags (minimalPlugin p) = GetTags p
                \<and> GetDirtyInfo (minimalPlugin p) = GetDirtyInfo p
                \<and> (minimalPlugin p)\<lparr>GetTags := {}, GetDirtyInfo := {}\<rparr> =
                    new_PluginMetadata (GetName p))"
proof -
  have "add_minimal_plugins sys empty_MetadataList (Plugins (the_masterlist db)) =
      Inr (empty_MetadataList\<lparr>Plugins := Plugins empty_MetadataList
             @ map minimalPlugin (Plugins (the_masterlist db))\<rparr>)"
    using assms(3) by (intro add_minimal_plugins_distinct) (simp_all add: empty_MetadataList_def)
  with assms(1,2) show ?thesis
    by (auto simp: WriteMinimalList_def empty_MetadataList_def minimalPlugin_fields)
qed

text \<open>
  An instance: a masterlist with a tagged plugin and one that only has a group, saved to a
  path that is free.
\<close>

theorem WriteMinimalList_saves_minimal_entries_witness:
  "exists disk_sys disk1 (parent_path disk_sys ''data/taglist.yaml'')
   \<and> \<not> exists disk_sys disk1 ''data/taglist.yaml''
   \<and> WriteMinimalList disk_sys disk1 old_db ''data/taglist.yaml'' False =
       (Inr (),
        disk1\<lparr>disk_files :=
          (''data/taglist.yaml'',
           Inr \<lparr> Plugins =
                   [(new_PluginMetadata ''Blank.esm'')\<lparr>GetTags := {relev_tag}\<rparr>,
                    new_PluginMetadata ''Blank.esp''],
                 Messages = [], BashTags = {} \<rparr>) # disk_files disk1\<rparr>)"
proof -
  have d: "distinct (map (normalise \<circ> GetName) (Plugins (the_masterlist old_db)))"
    by (simp add: old_db_def old_masterlist_def new_PluginMetadata_def normalise_def
        to_lower_def)
  have s: "Save disk_sys l ''data/taglist.yaml'' disk1 =
      (Inr (), disk1\<lparr>disk_files := (''data/taglist.yaml'', Inr l) # disk_files disk1\<rparr>)" for l
    by (simp add: disk_sys_def disk_Save_def)
  have m: "map minimalPlugin (Plugins (the_masterlist old_db)) =
      [(new_PluginMetadata ''Blank.esm'')\<lparr>GetTags := {relev_tag}\<rparr>,
       new_PluginMetadata ''Blank.esp'']"
    by (simp add: old_db_def old_masterlist_def minimalPlugin_def new_PluginMetadata_def)
  from WriteMinimalList_saves_minimal_entries
         [of disk_sys disk1 "''data/taglist.yaml''" False old_db] d
  show ?thesis by (simp add: disk1_facts disk_parent_facts s m)
qed

text \<open>
  \<^verbatim>\<open>GetKnownBashTags\<close> returns the union of the known tags of the masterlist and of the
  userlist.
\<close>

theorem GetKnownBashTags_union:
  "GetKnownBashTags db = BashTags (the_masterlist db) \<union> BashTags (the_userlist db)"
  by (simp add: GetKnownBashTags_def Let_def)

text \<open>
  \<^verbatim>\<open>GetPluginMetadata\<close> without evaluation, for a plugin the userlist holds no entry of:
  asking for the user metadata changes nothing, the result is the masterlist's entry.
\<close>

theorem GetPluginMetadata_without_user_entry:
  assumes "find (same_plugin (new_PluginMetadata plugin)) (Plugins (the_userlist db)) = None"
  shows "GetPluginMetadata sys fs db plugin True False =
           (Inr (FindPlugin (the_masterlist db) plugin), db)
         \<and> GetPluginMetadata sys fs db plugin True False =
             GetPluginMetadata sys fs db plugin False False"
  using assms
  by (simp add: GetPluginMetadata_def Let_def FindPlugin_def MergeMetadata_empty_right)

theorem GetPluginMetadata_without_user_entry_witness:
  "find (same_plugin (new_PluginMetadata ''Blank.esm'')) (Plugins (the_userlist old_db)) = None
   \<and> GetPluginMetadata disk_sys disk1 old_db ''Blank.esm'' True False =
       (Inr ((new_PluginMetadata ''Blank.esm'')\<lparr>group := Some ''early'', GetTags := {relev_tag}\<rparr>),
        old_db)"
proof -
  have h: "find (same_plugin (new_PluginMetadata ''Blank.esm''))
             (Plugins (the_userlist old_db)) = None"
    by (simp add: old_db_def old_userlist_def same_plugin_def new_PluginMetadata_def
        normalise_def to_lower_def)
  have f: "FindPlugin (the_masterlist old_db) ''Blank.esm'' =
      (new_PluginMetadata ''Blank.esm'')\<lparr>group := Some ''early'', GetTags := {relev_tag}\<rparr>"
    by (simp add: FindPlugin_def old_db_def old_masterlist_def same_plugin_def
        new_PluginMetadata_def normalise_def to_lower_def)
  from GetPluginMetadata_without_user_entry [OF h, of disk_sys disk1] h f
  show ?thesis by simp
qed

text \<open>
  \<^verbatim>\<open>UpdateMasterlist\<close> throws \<^verbatim>\<open>std::invalid_argument\<close> when the parent of the masterlist path
  is not a directory; the update is not started, and the database and the file system are
  as before.
\<close>

theorem UpdateMasterlist_invalid_parent:
  "\<not> is_directory sys fs (parent_path sys p) \<Longrightarrow>
     \<exists>msg. UpdateMasterlist sys fs db p url br = (Inl (InvalidArgument msg), db, fs)"
  by (simp add: UpdateMasterlist_def)

theorem UpdateMasterlist_invalid_parent_witness:
  "\<not> is_directory disk_sys disk1 (parent_path disk_sys ''nowhere/userlist.yaml'')
   \<and> (\<exists>msg. UpdateMasterlist disk_sys disk1 old_db ''nowhere/userlist.yaml''
         ''https://example.org/list.git'' ''master'' = (Inl (InvalidArgument msg), old_db, disk1))"
proof -
  have h: "\<not> is_directory disk_sys disk1 (parent_path disk_sys ''nowhere/userlist.yaml'')"
    by (simp add: disk_parent_facts) (simp add: disk_sys_def disk1_def)
  from h UpdateMasterlist_invalid_parent [OF h] show ?thesis by blast
qed

text \<open>
  After \<^verbatim>\<open>DiscardPluginUserMetadata\<close> the userlist holds no entry of the plugin:
  \<^verbatim>\<open>GetPluginUserMetadata\<close> returns the empty value of the name; the masterlist is as
  before.
\<close>

theorem DiscardPluginUserMetadata_forgets:
  "GetPluginUserMetadata sys fs (DiscardPluginUserMetadata db plugin) plugin False =
     (Inr (new_PluginMetadata plugin), DiscardPluginUserMetadata db plugin)
   \<and> the_masterlist (DiscardPluginUserMetadata db plugin) = the_masterlist db"
  by (simp add: GetPluginUserMetadata_def DiscardPluginUserMetadata_def FindPlugin_def
      ErasePlugin_def find_same_plugin_erased)

lemma find_filter_append_other:
  "\<not> P p \<Longrightarrow> (\<And>x. P x \<Longrightarrow> Q x) \<Longrightarrow> find P (filter Q xs @ [p]) = find P xs"
  by (induction xs) auto

text \<open>
  \<^verbatim>\<open>SetPluginUserMetadata\<close> leaves the user entries of the other plugins as they were.
\<close>

theorem SetPluginUserMetadata_keeps_others:
  "normalise n \<noteq> normalise (GetName p) \<Longrightarrow>
     FindPlugin (the_userlist (snd (SetPluginUserMetadata sys db p))) n =
       FindPlugin (the_userlist db) n
     \<and> the_masterlist (snd (SetPluginUserMetadata sys db p)) = the_masterlist db"
proof -
  assume n: "normalise n \<noteq> normalise (GetName p)"
  let ?erased = "filter (\<lambda>q. \<not> same_plugin p q) (Plugins (the_userlist db))"
  have add: "AddPlugin sys (ErasePlugin (the_userlist db) p) p =
      Inr ((the_userlist db)\<lparr>Plugins := ?erased @ [p]\<rparr>)"
    by (simp add: AddPlugin_def ErasePlugin_def find_same_plugin_erased)
  have set: "SetPluginUserMetadata sys db p =
      (Inr (), db\<lparr>the_userlist := (the_userlist db)\<lparr>Plugins := ?erased @ [p]\<rparr>\<rparr>)"
    by (simp add: SetPluginUserMetadata_def Let_def add)
  have "find (same_plugin (new_PluginMetadata n)) (?erased @ [p]) =
      find (same_plugin (new_PluginMetadata n)) (Plugins (the_userlist db))"
    using n by (intro find_filter_append_other)
      (auto simp: same_plugin_def new_PluginMetadata_def)
  then show ?thesis by (simp add: set FindPlugin_def)
qed

theorem SetPluginUserMetadata_keeps_others_witness:
  "normalise ''Blank.esp'' \<noteq> normalise (GetName (new_PluginMetadata ''Blank.esm''))
   \<and> FindPlugin (the_userlist (snd (SetPluginUserMetadata disk_sys old_db
         (new_PluginMetadata ''Blank.esm'')))) ''Blank.esp'' =
       (new_PluginMetadata ''Blank.esp'')\<lparr>enabled := Some False\<rparr>"
proof -
  have h: "normalise ''Blank.esp'' \<noteq> normalise (GetName (new_PluginMetadata ''Blank.esm''))"
    by (simp add: new_PluginMetadata_def normalise_def to_lower_def)
  have f: "FindPlugin (the_userlist old_db) ''Blank.esp'' =
      (new_PluginMetadata ''Blank.esp'')\<lparr>enabled := Some False\<rparr>"
    by (simp add: FindPlugin_def old_db_def old_userlist_def same_plugin_def)
  from SetPluginUserMetadata_keeps_others [OF h, of disk_sys old_db] h f
  show ?thesis by simp
qed

lemma evaluate_dom:
  "fst (evaluate sys fs cache cond) = Inr b \<Longrightarrow>
     dom (snd (evaluate sys fs cache cond)) =
       dom cache \<union> (case cond of None \<Rightarrow> {} | Some c \<Rightarrow> {c})"
  by (auto simp: evaluate_def split: option.splits sum.splits)

lemma erase_unless_condition_cache:
  "cache_consistent sys fs cache \<Longrightarrow> first_condition_error sys fs ms = None \<Longrightarrow>
     cache_consistent sys fs (snd (erase_unless_condition sys fs cache ms))
     \<and> dom (snd (erase_unless_condition sys fs cache ms)) =
         dom cache \<union> {c. \<exists>m \<in> set ms. GetCondition m = Some c}"
proof (induction ms arbitrary: cache)
  case Nil
  then show ?case by simp
next
  case (Cons m ms)
  obtain r cache' where ev: "evaluate sys fs cache (GetCondition m) = (r, cache')"
    by (cases "evaluate sys fs cache (GetCondition m)")
  from Cons.prems(2) have ce: "condition_error sys fs m = None"
    and rest_ok: "first_condition_error sys fs ms = None"
    by (auto split: option.splits)
  from evaluate_consistent [OF Cons.prems(1), of "GetCondition m"] ev
  have r: "r = (case GetCondition m of None \<Rightarrow> Inr True | Some c \<Rightarrow> evaluate_uncached sys fs c)"
    and c': "cache_consistent sys fs cache'"
    by simp_all
  from r ce obtain holds where holds: "r = Inr holds"
    by (auto simp: condition_error_def split: option.splits sum.splits)
  from evaluate_dom [of sys fs cache "GetCondition m" holds] ev holds
  have d: "dom cache' = dom cache \<union> (case GetCondition m of None \<Rightarrow> {} | Some c \<Rightarrow> {c})"
    by simp
  obtain r2 cache2 where rest: "erase_unless_condition sys fs cache' ms = (r2, cache2)"
    by (cases "erase_unless_condition sys fs cache' ms")
  from erase_unless_condition_consistent [OF c', of ms] rest rest_ok
  obtain kept where kept: "r2 = Inr kept" by simp
  from Cons.IH [OF c' rest_ok] rest
  have ih: "cache_consistent sys fs cache2"
    "dom cache2 = dom cache' \<union> {c. \<exists>m \<in> set ms. GetCondition m = Some c}"
    by simp_all
  have "snd (erase_unless_condition sys fs cache (m # ms)) = cache2"
    using ev holds rest kept by simp
  with ih d show ?case by (auto split: option.splits)
qed

text \<open>
  The condition cache after an evaluating \<^verbatim>\<open>GetGeneralMessages\<close> in which no condition
  raised an exception: it holds a result for exactly the conditions of the general
  messages, each the result of its evaluation; nothing of what it held before is left.
  The lists of the database are as before.
\<close>

theorem GetGeneralMessages_refills_cache:
  assumes "first_condition_error sys fs
             (Messages (the_masterlist db) @ Messages (the_userlist db)) = None"
  shows "dom (the_gameCache (snd (GetGeneralMessages sys fs db True))) =
           {c. \<exists>m \<in> set (Messages (the_masterlist db) @ Messages (the_userlist db)).
                 GetCondition m = Some c}
         \<and> cache_consistent sys fs (the_gameCache (snd (GetGeneralMessages sys fs db True)))
         \<and> the_masterlist (snd (GetGeneralMessages sys fs db True)) = the_masterlist db
         \<and> the_userlist (snd (GetGeneralMessages sys fs db True)) = the_userlist db"
proof -
  have cleared: "cache_consistent sys fs (ClearCachedConditions (the_gameCache db))"
    by (simp add: cache_consistent_def ClearCachedConditions_def)
  have app: "(if us \<noteq> [] then ms @ us else ms) = ms @ us" for ms us :: "Message list"
    by simp
  from erase_unless_condition_cache [OF cleared assms]
  show ?thesis
    by (simp add: GetGeneralMessages_def Let_def app case_prod_unfold ClearCachedConditions_def)
qed

theorem GetGeneralMessages_refills_cache_witness:
  "first_condition_error disk_sys disk1
     (Messages (the_masterlist messages_db) @ Messages (the_userlist messages_db)) = None
   \<and> dom (the_gameCache (snd (GetGeneralMessages disk_sys disk1 messages_db True))) =
       {''file:data/missing.yaml'', ''file:data/userlist.yaml''}
   \<and> the_gameCache (snd (GetGeneralMessages disk_sys disk1 messages_db True))
         ''file:data/missing.yaml'' = Some False"
proof -
  have c: "evaluate_uncached disk_sys disk1 ''file:data/missing.yaml'' = Inr False"
    "evaluate_uncached disk_sys disk1 ''file:data/userlist.yaml'' = Inr True"
    by (simp_all add: disk_sys_def disk_condition_def disk_exists_def disk1_def)
  have m: "Messages (the_masterlist messages_db) @ Messages (the_userlist messages_db) =
      [general_message, message_if_missing, message_if_userlist]"
    by (simp add: messages_db_def)
  have g: "GetCondition general_message = None"
    "GetCondition message_if_missing = Some ''file:data/missing.yaml''"
    "GetCondition message_if_userlist = Some ''file:data/userlist.yaml''"
    by (simp_all add: general_message_def message_if_missing_def message_if_userlist_def)
  have h: "first_condition_error disk_sys disk1
     (Messages (the_masterlist messages_db) @ Messages (the_userlist messages_db)) = None"
    by (simp add: m condition_error_def g c)
  let ?cache = "the_gameCache (snd (GetGeneralMessages disk_sys disk1 messages_db True))"
  from GetGeneralMessages_refills_cache [OF h]
  have d: "dom ?cache = {''file:data/missing.yaml'', ''file:data/userlist.yaml''}"
    and k: "cache_consistent disk_sys disk1 ?cache"
    by (auto simp: m g)
  from d obtain b where b: "?cache ''file:data/missing.yaml'' = Some b"
    by blast
  with k c have "b = False"
    by (auto simp: cache_consistent_def)
  with h d b show ?thesis by simp
qed

end
